theory Spec2Isabelle
  imports Complex_Main
begin

section \<open>Python values shared by the components\<close>

text \<open>
  Python's \<^verbatim>\<open>str(n)\<close> on an integer: the decimal digits, with a leading minus sign
  for a negative number. It is used by the f-strings of the client's error messages and
  by \<^verbatim>\<open>str(ext_product.get('id', ''))\<close> in the orchestrator.
\<close>

definition digit_char :: "nat \<Rightarrow> char" where
  "digit_char d = char_of (48 + d)"

fun str_nat :: "nat \<Rightarrow> string" where
  "str_nat n = (if n < 10 then [digit_char n] else str_nat (n div 10) @ [digit_char (n mod 10)])"

declare str_nat.simps [simp del]

definition str_int :: "int \<Rightarrow> string" where
  "str_int i = (if i < 0 then CHR ''-'' # str_nat (nat (- i)) else str_nat (nat i))"

section \<open>The HTTP client (services/api_client.py)\<close>

text \<open>
  Exceptions are values: the class and the message (\<^verbatim>\<open>str(e)\<close>). \<^verbatim>\<open>APIClientError\<close> is
  the client's own class; the others are raised by the limiter, the orchestrator and the
  product model below. What \<^verbatim>\<open>session.request\<close> does on one attempt is
  an input of the model: either a response (status code, the parsed JSON body or \<open>None\<close>
  when \<^verbatim>\<open>response.json()\<close> raises \<^verbatim>\<open>ValueError\<close>, and the body text), or one of the three
  exception classes of \<^verbatim>\<open>requests.exceptions\<close> that the loop catches, with \<^verbatim>\<open>str(e)\<close>.
\<close>

datatype exception =
    APIClientError string
  | ValueError string
  | TypeError string
  | AttributeError string
  | ZeroDivisionError string
  | UserError string
  | IntegrityError string
  | ValidationError string

datatype 'j outcome =
    Response int "'j option" string
  | Timeout string
  | ConnectionError string
  | RequestException string

text \<open>
  The observable behaviour of one call of \<^verbatim>\<open>_make_request\<close>: what it returns or raises,
  how many times it called \<^verbatim>\<open>session.request\<close>, and the arguments of its calls of
  \<^verbatim>\<open>time.sleep\<close>, in order.
\<close>

record 'j request_trace =
  result :: "exception + 'j option"
  attempts :: int
  sleeps :: "rat list"

text \<open>
  \<^verbatim>\<open>_calculate_backoff\<close>: \<^verbatim>\<open>min(2 ** (attempt - 1), 60)\<close>. For \<open>attempt < 1\<close> Python's
  \<^verbatim>\<open>**\<close> with a negative exponent yields the float \<open>2\<^sup>-\<^sup>k\<close> (exact, and \<open>0.0\<close> below the
  smallest subnormal), so the result type is a rational.
\<close>

definition calculate_backoff :: "int \<Rightarrow> rat" where
  "calculate_backoff attempt =
     (let base_delay =
        (if 1 \<le> attempt then 2 ^ nat (attempt - 1)
         else if attempt - 1 < - 1074 then 0
         else 1 / 2 ^ nat (1 - attempt))
      in min base_delay 60)"

definition should_retry :: "int \<Rightarrow> int \<Rightarrow> int \<Rightarrow> bool" where
  "should_retry max_retries status_code attempt =
     (if attempt \<ge> max_retries then False
      else if 500 \<le> status_code \<and> status_code < 600 then True
      else if status_code = 429 then True
      else if status_code = 408 then True
      else False)"

definition client_error_msg :: "int \<Rightarrow> string \<Rightarrow> string" where
  "client_error_msg status_code text = ''Client error: '' @ str_int status_code @ '' - '' @ text"

definition exhausted_msg :: "int \<Rightarrow> string option \<Rightarrow> string" where
  "exhausted_msg max_retries last_exception =
     ''Request failed after '' @ str_int max_retries @ '' attempts'' @
     (case last_exception of None \<Rightarrow> [] | Some e \<Rightarrow> '': '' @ e)"

text \<open>
  The \<^verbatim>\<open>while attempt < self.max_retries\<close> loop of \<^verbatim>\<open>_make_request\<close>. \<open>session n\<close> is the
  outcome of the \<open>n\<close>-th call of \<^verbatim>\<open>session.request\<close>; \<open>attempt\<close>, \<open>last_exception\<close> are the
  loop's variables and \<open>slept\<close> the sleeps so far. An exception handler that does not
  \<^verbatim>\<open>continue\<close> (no attempts left) falls out of the \<^verbatim>\<open>try\<close> and re-tests the loop condition.
\<close>

function make_request_loop ::
  "int \<Rightarrow> (int \<Rightarrow> 'j outcome) \<Rightarrow> int \<Rightarrow> string option \<Rightarrow> rat list \<Rightarrow> 'j request_trace" where
  "make_request_loop max_retries session attempt last_exception slept =
     (if attempt < max_retries then
        (case session (attempt + 1) of
           Response status_code body text \<Rightarrow>
             if 200 \<le> status_code \<and> status_code < 300 then
               \<lparr>result = Inr body, attempts = attempt + 1, sleeps = slept\<rparr>
             else if should_retry max_retries status_code (attempt + 1) then
               make_request_loop max_retries session (attempt + 1) last_exception
                 (slept @ [calculate_backoff (attempt + 1)])
             else
               \<lparr>result = Inl (APIClientError (client_error_msg status_code text)),
                attempts = attempt + 1, sleeps = slept\<rparr>
         | Timeout e \<Rightarrow>
             if attempt + 1 < max_retries then
               make_request_loop max_retries session (attempt + 1) (Some e)
                 (slept @ [calculate_backoff (attempt + 1)])
             else make_request_loop max_retries session (attempt + 1) (Some e) slept
         | ConnectionError e \<Rightarrow>
             if attempt + 1 < max_retries then
               make_request_loop max_retries session (attempt + 1) (Some e)
                 (slept @ [calculate_backoff (attempt + 1)])
             else make_request_loop max_retries session (attempt + 1) (Some e) slept
         | RequestException e \<Rightarrow>
             if attempt + 1 < max_retries then
               make_request_loop max_retries session (attempt + 1) (Some e)
                 (slept @ [calculate_backoff (attempt + 1)])
             else make_request_loop max_retries session (attempt + 1) (Some e) slept)
      else
        \<lparr>result = Inl (APIClientError (exhausted_msg max_retries last_exception)),
         attempts = attempt, sleeps = slept\<rparr>)"
  by pat_completeness auto
termination
  by (relation "measure (\<lambda>(max_retries, session, attempt, last_exception, slept).
        nat (max_retries - attempt))") auto

declare make_request_loop.simps [simp del]

definition make_request :: "int \<Rightarrow> (int \<Rightarrow> 'j outcome) \<Rightarrow> 'j request_trace" where
  "make_request max_retries session = make_request_loop max_retries session 0 None []"

section \<open>The token bucket (services/rate_limiter.py)\<close>

text \<open>
  The limiter's fields. \<^verbatim>\<open>tokens\<close>, \<^verbatim>\<open>max_tokens\<close>, \<^verbatim>\<open>per_seconds\<close> and the clock are
  Python floats; the model computes with exact rationals (rounding is not modelled).
  The lock is not modelled: every method body runs under it, so the calls are sequential.
  \<^verbatim>\<open>time.time()\<close> is an input: each method takes the clock reading \<open>now\<close>.
\<close>

record rate_limiter =
  rate :: int
  per_seconds :: rat
  tokens :: rat
  max_tokens :: rat
  last_refill :: rat

definition RateLimiter :: "int \<Rightarrow> rat \<Rightarrow> rat \<Rightarrow> rate_limiter" where
  "RateLimiter r per now =
     \<lparr>rate = r, per_seconds = per, tokens = of_int r, max_tokens = of_int r, last_refill = now\<rparr>"

definition division_by_zero :: exception where
  "division_by_zero = ZeroDivisionError ''float division by zero''"

text \<open>
  \<^verbatim>\<open>_refill_tokens\<close>. \<^verbatim>\<open>self.rate / self.per_seconds\<close> raises when the window is zero,
  before any field is assigned.
\<close>

definition refill_tokens :: "rat \<Rightarrow> rate_limiter \<Rightarrow> exception + rate_limiter" where
  "refill_tokens now rl =
     (let elapsed = now - last_refill rl in
      if per_seconds rl = 0 then Inl division_by_zero
      else
        let tokens_to_add = elapsed * (of_int (rate rl) / per_seconds rl) in
        Inr (rl\<lparr>tokens := min (max_tokens rl) (tokens rl + tokens_to_add), last_refill := now\<rparr>))"

definition wait_time :: "rate_limiter \<Rightarrow> exception + rat" where
  "wait_time rl =
     (if tokens rl \<ge> 1 then Inr 0
      else if rate rl = 0 then Inl division_by_zero
      else
        let time_per_token = per_seconds rl / of_int (rate rl);
            tokens_needed = 1 - tokens rl
        in Inr (tokens_needed * time_per_token))"

text \<open>
  \<^verbatim>\<open>wait_if_needed\<close>. \<^verbatim>\<open>time.sleep(wait_time)\<close> suspends the caller for at least the
  requested time: the clock read by the second refill is \<open>now + wait_time + oversleep\<close>,
  where \<open>oversleep\<close> is an input. Every method returns the limiter as the call leaves it,
  also when it raises.
\<close>

definition wait_if_needed :: "rat \<Rightarrow> rat \<Rightarrow> rate_limiter \<Rightarrow> (exception + unit) \<times> rate_limiter" where
  "wait_if_needed now oversleep rl =
     (case refill_tokens now rl of
        Inl e \<Rightarrow> (Inl e, rl)
      | Inr rl1 \<Rightarrow>
          (case wait_time rl1 of
             Inl e \<Rightarrow> (Inl e, rl1)
           | Inr w \<Rightarrow>
               if w > 0 then
                 (case refill_tokens (now + w + oversleep) rl1 of
                    Inl e \<Rightarrow> (Inl e, rl1)
                  | Inr rl2 \<Rightarrow> (Inr (), rl2\<lparr>tokens := tokens rl2 - 1\<rparr>))
               else (Inr (), rl1\<lparr>tokens := tokens rl1 - 1\<rparr>)))"








subsection \<open>AdaptiveRateLimiter\<close>

record adaptive_rate_limiter = rate_limiter +
  min_rate :: int
  max_rate :: int
  initial_rate :: int
  success_count :: int




definition reset_to_initial :: "rat \<Rightarrow> adaptive_rate_limiter \<Rightarrow> adaptive_rate_limiter" where
  "reset_to_initial now a =
     a\<lparr>rate := initial_rate a, max_tokens := of_int (initial_rate a),
       tokens := of_int (initial_rate a), success_count := 0, last_refill := now\<rparr>"





section \<open>The product model (models/product_sync.py)\<close>

subsection \<open>External records\<close>

text \<open>
  An external record is the dictionary decoded from the catalog's JSON. Each key is
  absent, present with \<^verbatim>\<open>null\<close>, or present with a value of the type the catalog
  declares for it; the identifier is an integer or a string.
\<close>

datatype 'a jfield = Absent | Null | Val 'a

datatype ident = IdInt int | IdStr string

record ext_product =
  ext_id :: "ident jfield"
  ext_name :: "string jfield"
  ext_sku :: "string jfield"
  ext_description :: "string jfield"
  ext_list_price :: "rat jfield"
  ext_standard_price :: "rat jfield"
  ext_barcode :: "string jfield"
  ext_category :: "string jfield"
  ext_active :: "bool jfield"

text \<open>
  \<^verbatim>\<open>d.get(key, default)\<close>: the result is a Python value, \<open>None\<close> standing for Python's
  \<^verbatim>\<open>None\<close>. \<^verbatim>\<open>str(...)\<close> of an identifier and \<^verbatim>\<open>float(...)\<close> of a price follow; the
  latter raises \<^verbatim>\<open>TypeError\<close> on \<^verbatim>\<open>None\<close>. A value is truthy when it is neither
  \<^verbatim>\<open>None\<close> nor the empty string.
\<close>

definition dict_get :: "'a jfield \<Rightarrow> 'a \<Rightarrow> 'a option" where
  "dict_get f dflt = (case f of Absent \<Rightarrow> Some dflt | Null \<Rightarrow> None | Val v \<Rightarrow> Some v)"

definition str_ident :: "ident option \<Rightarrow> string" where
  "str_ident v = (case v of None \<Rightarrow> ''None'' | Some (IdInt n) \<Rightarrow> str_int n | Some (IdStr s) \<Rightarrow> s)"

definition str_or_none :: "string option \<Rightarrow> string" where
  "str_or_none v = (case v of None \<Rightarrow> ''None'' | Some s \<Rightarrow> s)"

definition py_float :: "rat option \<Rightarrow> exception + rat" where
  "py_float v =
     (case v of
        None \<Rightarrow>
          Inl (TypeError (''float() argument must be a string or a real number, not '' @
                 [CHR 0x27] @ ''NoneType'' @ [CHR 0x27]))
      | Some x \<Rightarrow> Inr x)"

definition truthy :: "string option \<Rightarrow> bool" where
  "truthy v = (case v of None \<Rightarrow> False | Some s \<Rightarrow> s \<noteq> [])"

subsection \<open>Local products\<close>

text \<open>
  A row of \<^verbatim>\<open>product.template\<close>: the fields the module declares and the inherited ones
  it writes. An unset \<^verbatim>\<open>Char\<close>, \<^verbatim>\<open>Text\<close> or \<^verbatim>\<open>Datetime\<close> field reads as \<^verbatim>\<open>False\<close>,
  modelled by \<open>None\<close>. \<^verbatim>\<open>fields.Datetime.now()\<close> has a resolution of one second: a
  time is a number of seconds.
\<close>

datatype sync_status = Pending | Synced | SyncError | Manual

record product =
  pid :: nat
  name :: "string option"
  external_id :: "string option"
  external_sku :: "string option"
  default_code :: "string option"
  description :: "string option"
  list_price :: rat
  standard_price :: rat
  barcode :: "string option"
  active :: bool
  is_from_external :: bool
  last_sync_date :: "nat option"
  sync_status :: sync_status
  sync_error_message :: "string option"

text \<open>
  The dictionary \<^verbatim>\<open>values\<close> passed to \<^verbatim>\<open>create\<close> and \<^verbatim>\<open>write\<close>: per key, \<open>None\<close>
  when the key is not in the dictionary.
\<close>

record product_values =
  v_name :: "string option"
  v_external_id :: "string option"
  v_external_sku :: "string option"
  v_default_code :: "string option"
  v_description :: "string option"
  v_list_price :: "rat option"
  v_standard_price :: "rat option"
  v_barcode :: "string option"
  v_active :: "bool option"
  v_is_from_external :: "bool option"
  v_last_sync_date :: "nat option"
  v_sync_status :: "sync_status option"

text \<open>
  The comprehension \<^verbatim>\<open>{k: v for k, v in values.items() if v not in [None, '']}\<close> on a
  string-valued entry: the key stays exactly when the value is a non-empty string.
  Floats, booleans and the datetime are never equal to \<^verbatim>\<open>None\<close> or \<^verbatim>\<open>''\<close>, so those
  keys stay unless the value is \<^verbatim>\<open>None\<close>.
\<close>

definition clean :: "string option \<Rightarrow> string option" where
  "clean v = (case v of None \<Rightarrow> None | Some s \<Rightarrow> if s = [] then None else Some s)"

definition prepare_values_from_external :: "nat \<Rightarrow> ext_product \<Rightarrow> exception + product_values" where
  "prepare_values_from_external now external_data =
     (case py_float (dict_get (ext_list_price external_data) 0) of
        Inl e \<Rightarrow> Inl e
      | Inr lp \<Rightarrow>
          (case py_float (dict_get (ext_standard_price external_data) 0) of
             Inl e \<Rightarrow> Inl e
           | Inr sp \<Rightarrow>
               Inr \<lparr>v_name = clean (dict_get (ext_name external_data) []),
                    v_external_id = clean (Some (str_ident (dict_get (ext_id external_data) (IdStr [])))),
                    v_external_sku = clean (dict_get (ext_sku external_data) []),
                    v_default_code = clean (dict_get (ext_sku external_data) []),
                    v_description = clean (dict_get (ext_description external_data) []),
                    v_list_price = Some lp,
                    v_standard_price = Some sp,
                    v_barcode = clean (dict_get (ext_barcode external_data) []),
                    v_active = dict_get (ext_active external_data) True,
                    v_is_from_external = Some True,
                    v_last_sync_date = Some now,
                    v_sync_status = None\<rparr>))"

text \<open>
  \<^verbatim>\<open>old_value != new_value\<close> for one key of \<^verbatim>\<open>values\<close>, and the loop of
  \<^verbatim>\<open>update_from_external\<close> over all of them.
\<close>

definition changed :: "'a \<Rightarrow> 'a option \<Rightarrow> bool" where
  "changed old new = (case new of None \<Rightarrow> False | Some x \<Rightarrow> old \<noteq> x)"

definition changed_opt :: "'a option \<Rightarrow> 'a option \<Rightarrow> bool" where
  "changed_opt old new = (case new of None \<Rightarrow> False | Some x \<Rightarrow> old \<noteq> Some x)"

definition has_changes :: "product \<Rightarrow> product_values \<Rightarrow> bool" where
  "has_changes p v \<longleftrightarrow>
     changed_opt (name p) (v_name v)
     \<or> changed_opt (external_id p) (v_external_id v)
     \<or> changed_opt (external_sku p) (v_external_sku v)
     \<or> changed_opt (default_code p) (v_default_code v)
     \<or> changed_opt (description p) (v_description v)
     \<or> changed (list_price p) (v_list_price v)
     \<or> changed (standard_price p) (v_standard_price v)
     \<or> changed_opt (barcode p) (v_barcode v)
     \<or> changed (active p) (v_active v)
     \<or> changed (is_from_external p) (v_is_from_external v)
     \<or> changed_opt (last_sync_date p) (v_last_sync_date v)
     \<or> changed (sync_status p) (v_sync_status v)"

definition assign :: "'a \<Rightarrow> 'a option \<Rightarrow> 'a" where
  "assign old new = (case new of None \<Rightarrow> old | Some x \<Rightarrow> x)"

definition assign_opt :: "'a option \<Rightarrow> 'a option \<Rightarrow> 'a option" where
  "assign_opt old new = (case new of None \<Rightarrow> old | Some x \<Rightarrow> Some x)"

definition apply_values :: "product_values \<Rightarrow> product \<Rightarrow> product" where
  "apply_values v p =
     p\<lparr>name := assign_opt (name p) (v_name v),
       external_id := assign_opt (external_id p) (v_external_id v),
       external_sku := assign_opt (external_sku p) (v_external_sku v),
       default_code := assign_opt (default_code p) (v_default_code v),
       description := assign_opt (description p) (v_description v),
       list_price := assign (list_price p) (v_list_price v),
       standard_price := assign (standard_price p) (v_standard_price v),
       barcode := assign_opt (barcode p) (v_barcode v),
       active := assign (active p) (v_active v),
       is_from_external := assign (is_from_external p) (v_is_from_external v),
       last_sync_date := assign_opt (last_sync_date p) (v_last_sync_date v),
       sync_status := assign (sync_status p) (v_sync_status v)\<rparr>"

section \<open>The audit log (models/sync_log.py)\<close>

text \<open>
  A row of \<^verbatim>\<open>product.sync.log\<close>. The payload snapshot, the execution time and the
  fields the ORM fills by default are left out: no decision of the engine reads them.
\<close>

datatype operation = OpCreate | OpUpdate | OpSkip | OpDelete | OpError

datatype log_status = StatusSuccess | StatusError | StatusWarning

record log_entry =
  log_op :: operation
  log_status :: log_status
  product_id :: "nat option"
  log_external_id :: "string option"
  log_external_sku :: "string option"
  message :: string
  error_details :: "string option"
  sync_batch_id :: "string option"

section \<open>The database\<close>

text \<open>
  The two tables, and the cursor \<^verbatim>\<open>env.cr\<close>: \<open>cur\<close> is what the running transaction
  sees, \<open>committed\<close> what the last \<^verbatim>\<open>commit()\<close> made durable. \<^verbatim>\<open>rollback()\<close> discards
  every write since then. The identifier sequence and the clock are outside the
  transaction. \<open>ticks\<close> counts the readings of \<^verbatim>\<open>fields.Datetime.now()\<close>; the
  \<open>k\<close>-th reading returns \<open>clk k\<close>, where the clock \<open>clk\<close> is an input.
\<close>

record store =
  products :: "product list"
  logs :: "log_entry list"

record env =
  cur :: store
  committed :: store
  seq :: nat
  ticks :: nat

definition commit :: "env \<Rightarrow> env" where
  "commit e = e\<lparr>committed := cur e\<rparr>"

definition rollback :: "env \<Rightarrow> env" where
  "rollback e = e\<lparr>cur := committed e\<rparr>"

text \<open>
  \<^verbatim>\<open>search(domain, limit=1)\<close> returns the first row that satisfies the domain, in the
  table's order. The ORM's implicit filters are not modelled.
\<close>

definition search_by_external_id :: "env \<Rightarrow> string \<Rightarrow> product option" where
  "search_by_external_id e ext = find (\<lambda>p. external_id p = Some ext) (products (cur e))"

definition search_by_sku :: "env \<Rightarrow> string \<Rightarrow> product option" where
  "search_by_sku e sku =
     (case find (\<lambda>p. external_sku p = Some sku) (products (cur e)) of
        Some p \<Rightarrow> Some p
      | None \<Rightarrow> find (\<lambda>p. default_code p = Some sku) (products (cur e)))"

text \<open>
  The constraints the module declares: \<^verbatim>\<open>UNIQUE(external_id)\<close>, \<^verbatim>\<open>UNIQUE(external_sku)\<close>
  (SQL: null values never collide) and \<^verbatim>\<open>_check_external_fields\<close>, which runs when
  \<^verbatim>\<open>external_id\<close> or \<^verbatim>\<open>external_sku\<close> is among the written keys. \<open>others\<close> are the rows
  other than the one written. A rejected write leaves the tables as they were.
\<close>

definition check_constraints :: "product list \<Rightarrow> bool \<Rightarrow> product \<Rightarrow> exception option" where
  "check_constraints others triggered p =
     (if external_id p \<noteq> None \<and> (\<exists>q \<in> set others. external_id q = external_id p) then
        Some (IntegrityError ''external_id_unique'')
      else if external_sku p \<noteq> None \<and> (\<exists>q \<in> set others. external_sku q = external_sku p) then
        Some (IntegrityError ''external_sku_unique'')
      else if triggered \<and> truthy (external_id p) \<and> \<not> truthy (external_sku p) then
        Some (ValidationError ''Si el producto tiene External ID, debe tener tambien External SKU'')
      else None)"

definition constrained_keys :: "product_values \<Rightarrow> bool" where
  "constrained_keys v \<longleftrightarrow> v_external_id v \<noteq> None \<or> v_external_sku v \<noteq> None"

definition orm_write :: "env \<Rightarrow> product \<Rightarrow> product_values \<Rightarrow> exception + env" where
  "orm_write e self v =
     (let p' = apply_values v self;
          others = filter (\<lambda>q. pid q \<noteq> pid self) (products (cur e))
      in case check_constraints others (constrained_keys v) p' of
           Some x \<Rightarrow> Inl x
         | None \<Rightarrow>
             Inr (e\<lparr>cur := (cur e)\<lparr>products :=
                    map (\<lambda>q. if pid q = pid self then p' else q) (products (cur e))\<rparr>\<rparr>))"

text \<open>
  A new row: the module's defaults for its own fields, the ORM's for the inherited ones,
  then the values.
\<close>

definition new_product :: "nat \<Rightarrow> product" where
  "new_product i =
     \<lparr>pid = i, name = None, external_id = None, external_sku = None, default_code = None,
      description = None, list_price = 1, standard_price = 0, barcode = None, active = True,
      is_from_external = False, last_sync_date = None, sync_status = Manual,
      sync_error_message = None\<rparr>"

definition orm_create :: "env \<Rightarrow> product_values \<Rightarrow> exception + product \<times> env" where
  "orm_create e v =
     (let p' = apply_values v (new_product (Suc (seq e)))
      in case check_constraints (products (cur e)) (constrained_keys v) p' of
           Some x \<Rightarrow> Inl x
         | None \<Rightarrow>
             Inr (p', e\<lparr>cur := (cur e)\<lparr>products := products (cur e) @ [p']\<rparr>,
                       seq := Suc (seq e)\<rparr>))"

definition browse :: "env \<Rightarrow> nat \<Rightarrow> product option" where
  "browse e i = find (\<lambda>p. pid p = i) (products (cur e))"

definition product_name :: "env \<Rightarrow> nat \<Rightarrow> string" where
  "product_name e i =
     (case browse e i of
        None \<Rightarrow> ''False''
      | Some p \<Rightarrow> (case name p of None \<Rightarrow> ''False'' | Some n \<Rightarrow> n))"

subsection \<open>Methods of the product model\<close>

definition mark_as_synced :: "(nat \<Rightarrow> nat) \<Rightarrow> env \<Rightarrow> nat \<Rightarrow> env" where
  "mark_as_synced clk e i =
     e\<lparr>cur := (cur e)\<lparr>products :=
          map (\<lambda>q. if pid q = i
                    then q\<lparr>sync_status := Synced, last_sync_date := Some (clk (ticks e)),
                           sync_error_message := None\<rparr>
                    else q) (products (cur e))\<rparr>,
       ticks := Suc (ticks e)\<rparr>"

text \<open>
  \<^verbatim>\<open>update_from_external\<close> on the row \<open>self\<close>: the result is what the method returns or
  raises, with the environment as the call leaves it. The clock is read by
  \<^verbatim>\<open>_prepare_values_from_external\<close> after the two prices are converted.
\<close>

definition update_from_external ::
  "(nat \<Rightarrow> nat) \<Rightarrow> env \<Rightarrow> product \<Rightarrow> ext_product \<Rightarrow> (exception + bool) \<times> env" where
  "update_from_external clk e self external_data =
     (case prepare_values_from_external (clk (ticks e)) external_data of
        Inl x \<Rightarrow> (Inl x, e)
      | Inr values \<Rightarrow>
          (let e1 = e\<lparr>ticks := Suc (ticks e)\<rparr> in
           if has_changes self values then
             (case orm_write e1 self values of
                Inl x \<Rightarrow> (Inl x, e1)
              | Inr e2 \<Rightarrow> (Inr True, e2))
           else (Inr False, e1)))"

definition create_from_external ::
  "(nat \<Rightarrow> nat) \<Rightarrow> env \<Rightarrow> ext_product \<Rightarrow> (exception + product) \<times> env" where
  "create_from_external clk e external_data =
     (case prepare_values_from_external (clk (ticks e)) external_data of
        Inl x \<Rightarrow> (Inl x, e)
      | Inr values \<Rightarrow>
          (let e1 = e\<lparr>ticks := Suc (ticks e)\<rparr> in
           case orm_create e1 (values\<lparr>v_sync_status := Some Synced\<rparr>) of
             Inl x \<Rightarrow> (Inl x, e1)
           | Inr (p, e2) \<Rightarrow> (Inr p, e2)))"

subsection \<open>Writing the audit log\<close>

definition log_operation ::
  "env \<Rightarrow> operation \<Rightarrow> nat option \<Rightarrow> string option \<Rightarrow> string option \<Rightarrow> log_status \<Rightarrow>
   string \<Rightarrow> string option \<Rightarrow> string option \<Rightarrow> env" where
  "log_operation e operation product ext sku status msg details batch =
     e\<lparr>cur := (cur e)\<lparr>logs := logs (cur e) @
        [\<lparr>log_op = operation, log_status = status, product_id = product,
          log_external_id = ext, log_external_sku = sku, message = msg,
          error_details = details, sync_batch_id = batch\<rparr>]\<rparr>\<rparr>"

definition log_success ::
  "env \<Rightarrow> operation \<Rightarrow> nat option \<Rightarrow> string \<Rightarrow> string option \<Rightarrow> string option \<Rightarrow>
   string option \<Rightarrow> env" where
  "log_success e operation product msg ext sku batch =
     log_operation e operation product ext sku StatusSuccess msg None batch"

definition log_error ::
  "env \<Rightarrow> operation \<Rightarrow> string \<Rightarrow> string option \<Rightarrow> string option \<Rightarrow> string option \<Rightarrow>
   string option \<Rightarrow> env" where
  "log_error e operation msg details ext sku batch =
     log_operation e OpError None ext sku StatusError msg details batch"

section \<open>The orchestrator (services/sync_service.py)\<close>

definition exc_str :: "exception \<Rightarrow> string" where
  "exc_str x =
     (case x of
        APIClientError m \<Rightarrow> m | ValueError m \<Rightarrow> m | TypeError m \<Rightarrow> m
      | AttributeError m \<Rightarrow> m | ZeroDivisionError m \<Rightarrow> m | UserError m \<Rightarrow> m
      | IntegrityError m \<Rightarrow> m | ValidationError m \<Rightarrow> m)"

definition missing_fields_msg :: "string \<Rightarrow> string option \<Rightarrow> string" where
  "missing_fields_msg ext sku =
     ''Missing required fields: id='' @ ext @ '', sku='' @ str_or_none sku"

text \<open>
  \<^verbatim>\<open>_sync_single_product\<close>: the operation and the product it names, or the exception
  it raises, with the environment as the call leaves it.
\<close>

definition sync_single_product_priv ::
  "(nat \<Rightarrow> nat) \<Rightarrow> env \<Rightarrow> ext_product \<Rightarrow> string option \<Rightarrow> bool \<Rightarrow>
   (exception + operation \<times> nat option) \<times> env" where
  "sync_single_product_priv clk e ext_product batch dry_run =
     (let ext = str_ident (dict_get (ext_id ext_product) (IdStr []));
          external_sku = dict_get (ext_sku ext_product) []
      in
      if ext = [] \<or> \<not> truthy external_sku then
        (Inl (ValueError (missing_fields_msg ext external_sku)), e)
      else
        (let sku = str_or_none external_sku;
             existing_product =
               (case search_by_external_id e ext of
                  Some p \<Rightarrow> Some p
                | None \<Rightarrow> search_by_sku e sku)
         in
         case existing_product of
           Some p \<Rightarrow>
             if dry_run then (Inr (OpUpdate, Some (pid p)), e)
             else
               (case update_from_external clk e p ext_product of
                  (Inl x, e1) \<Rightarrow> (Inl x, e1)
                | (Inr changes, e1) \<Rightarrow>
                    if changes then
                      (let e2 = mark_as_synced clk e1 (pid p) in
                       (Inr (OpUpdate, Some (pid p)),
                        log_success e2 OpUpdate (Some (pid p))
                          (''Product updated: '' @ product_name e1 (pid p))
                          (Some ext) external_sku batch))
                    else
                      (Inr (OpSkip, Some (pid p)),
                       log_success e1 OpSkip (Some (pid p))
                         (''Product unchanged, skipping: '' @ product_name e1 (pid p))
                         (Some ext) external_sku batch))
         | None \<Rightarrow>
             if dry_run then (Inr (OpCreate, None), e)
             else
               (case create_from_external clk e ext_product of
                  (Inl x, e1) \<Rightarrow> (Inl x, e1)
                | (Inr p, e1) \<Rightarrow>
                    (Inr (OpCreate, Some (pid p)),
                     log_success e1 OpCreate (Some (pid p))
                       (''Product created: '' @ product_name e1 (pid p))
                       (Some ext) external_sku batch))))"

text \<open>
  The summary dictionary of \<^verbatim>\<open>sync_products\<close>. The three legacy counters are
  initialised and never incremented.
\<close>

record summary =
  total :: int
  create :: int
  created :: int
  update :: int
  updated :: int
  skip :: int
  skipped :: int
  errors :: int
  summary_batch_id :: string

definition count_operation :: "operation \<Rightarrow> summary \<Rightarrow> summary" where
  "count_operation operation s =
     (case operation of
        OpCreate \<Rightarrow> s\<lparr>create := create s + 1\<rparr>
      | OpUpdate \<Rightarrow> s\<lparr>update := update s + 1\<rparr>
      | OpSkip \<Rightarrow> s\<lparr>skip := skip s + 1\<rparr>
      | _ \<Rightarrow> s)"

text \<open>
  An element of the \<^verbatim>\<open>items\<close> array is a JSON object or some other JSON value; on the
  latter, \<^verbatim>\<open>ext_product.get('name')\<close> in the logging line before the inner \<^verbatim>\<open>try\<close>
  raises \<^verbatim>\<open>AttributeError\<close> (its message names the value's type, which the model
  leaves out).

  \<^verbatim>\<open>rate_limiter.wait_if_needed()\<close> in the orchestrator only delays, except that a
  limiter built with rate \<open>0\<close> raises on the division in \<^verbatim>\<open>_wait_time\<close>.
\<close>

datatype item = Dict ext_product | NotDict

definition limiter_wait :: "int \<Rightarrow> exception option" where
  "limiter_wait rate_limit = (if rate_limit = 0 then Some division_by_zero else None)"

text \<open>
  The records that \<^verbatim>\<open>_sync_single_product\<close> rejects at its first check: the identifier
  string is empty or the SKU is missing, \<^verbatim>\<open>null\<close> or empty.
\<close>

definition invalid_record :: "ext_product \<Rightarrow> bool" where
  "invalid_record x \<longleftrightarrow>
     str_ident (dict_get (ext_id x) (IdStr [])) = [] \<or> \<not> truthy (dict_get (ext_sku x) [])"

definition record_error :: "env \<Rightarrow> ext_product \<Rightarrow> exception \<Rightarrow> string option \<Rightarrow> env" where
  "record_error e ext_product x batch =
     log_error e OpError (''Error processing product: '' @ exc_str x) (Some (exc_str x))
       (Some (str_ident (dict_get (ext_id ext_product) (IdStr []))))
       (dict_get (ext_sku ext_product) []) batch"

text \<open>
  The \<^verbatim>\<open>for\<close> loop over the external records, with the inner \<^verbatim>\<open>try\<close>/\<^verbatim>\<open>except\<close>.
  \<open>Inl\<close> is an exception that leaves the loop.
\<close>

fun sync_loop ::
  "(nat \<Rightarrow> nat) \<Rightarrow> int \<Rightarrow> string option \<Rightarrow> bool \<Rightarrow> item list \<Rightarrow> summary \<Rightarrow> env \<Rightarrow>
   (exception + summary) \<times> env" where
  "sync_loop clk rate_limit batch dry_run [] s e = (Inr s, e)"
| "sync_loop clk rate_limit batch dry_run (NotDict # rest) s e =
     (Inl (AttributeError ''object has no attribute get''), e)"
| "sync_loop clk rate_limit batch dry_run (Dict ext_product # rest) s e =
     (let (s1, e1) =
        (case sync_single_product_priv clk e ext_product batch dry_run of
           (Inr (operation, product), e') \<Rightarrow> (count_operation operation s, e')
         | (Inl x, e') \<Rightarrow>
             (s\<lparr>errors := errors s + 1\<rparr>,
              if dry_run then e' else record_error e' ext_product x batch))
      in case limiter_wait rate_limit of
           Some x \<Rightarrow> (Inl x, e1)
         | None \<Rightarrow> sync_loop clk rate_limit batch dry_run rest s1 e1)"

text \<open>\<^verbatim>\<open>external_products[:limit]\<close>, also for a negative limit.\<close>

definition slice_to :: "int \<Rightarrow> 'a list \<Rightarrow> 'a list" where
  "slice_to n xs = (if n < 0 then take (nat (int (length xs) + n)) xs else take (nat n) xs)"

definition new_summary :: "string \<Rightarrow> summary" where
  "new_summary batch =
     \<lparr>total = 0, create = 0, created = 0, update = 0, updated = 0, skip = 0, skipped = 0,
      errors = 0, summary_batch_id = batch\<rparr>"

text \<open>
  \<^verbatim>\<open>sync_products\<close>. The inputs besides the arguments \<open>dry_run\<close> and \<open>limit\<close>: the clock, the
  configured number of attempts and rate, what the HTTP session does on each attempt
  (the JSON body is the \<^verbatim>\<open>items\<close> array, \<open>None\<close> when the object has no such key), and
  the generated batch identifier. \<open>sync_products_body\<close> is the outer \<^verbatim>\<open>try\<close> block,
  \<open>sync_products\<close> adds its \<^verbatim>\<open>except\<close> clause, which rolls back and re-raises.
\<close>

definition sync_products_body ::
  "(nat \<Rightarrow> nat) \<Rightarrow> int \<Rightarrow> int \<Rightarrow> (int \<Rightarrow> item list option outcome) \<Rightarrow> string \<Rightarrow>
   bool \<Rightarrow> int option \<Rightarrow> env \<Rightarrow> (exception + summary) \<times> env" where
  "sync_products_body clk max_retries rate_limit session batch dry_run limit e =
     (case limiter_wait rate_limit of
        Some x \<Rightarrow> (Inl x, e)
      | None \<Rightarrow>
          (case result (make_request max_retries session) of
             Inl x \<Rightarrow> (Inl x, e)
           | Inr None \<Rightarrow> (Inl (UserError ''Invalid response from external API''), e)
           | Inr (Some None) \<Rightarrow> (Inl (UserError ''Invalid response from external API''), e)
           | Inr (Some (Some items)) \<Rightarrow>
               (let external_products =
                      (case limit of
                         None \<Rightarrow> items
                       | Some n \<Rightarrow> if n = 0 then items else slice_to n items);
                    s = (new_summary batch)\<lparr>total := int (length external_products)\<rparr>
                in case sync_loop clk rate_limit (Some batch) dry_run external_products s e of
                     (Inl x, e1) \<Rightarrow> (Inl x, e1)
                   | (Inr s1, e1) \<Rightarrow> (Inr s1, if dry_run then e1 else commit e1))))"

definition sync_products ::
  "(nat \<Rightarrow> nat) \<Rightarrow> int \<Rightarrow> int \<Rightarrow> (int \<Rightarrow> item list option outcome) \<Rightarrow> string \<Rightarrow>
   bool \<Rightarrow> int option \<Rightarrow> env \<Rightarrow> (exception + summary) \<times> env" where
  "sync_products clk max_retries rate_limit session batch dry_run limit e =
     (case sync_products_body clk max_retries rate_limit session batch dry_run limit e of
        (Inl x, e1) \<Rightarrow> (Inl x, if dry_run then e1 else rollback e1)
      | (Inr s, e1) \<Rightarrow> (Inr s, e1))"

section \<open>Concrete inputs\<close>

text \<open>
  The inputs at which the properties below are evaluated: two catalog records, a record
  with empty name, description and barcode, an empty database, a database holding one
  purely local product, a session that answers every request with the given catalog,
  and a clock that shows second 100 for its first two readings and second 101 afterwards.
\<close>

definition record_1 :: ext_product where
  "record_1 =
     \<lparr>ext_id = Val (IdInt 1), ext_name = Val ''Product 1'', ext_sku = Val ''SKU-001'',
      ext_description = Absent, ext_list_price = Val 10, ext_standard_price = Absent,
      ext_barcode = Absent, ext_category = Absent, ext_active = Val True\<rparr>"

definition record_2 :: ext_product where
  "record_2 =
     \<lparr>ext_id = Val (IdInt 2), ext_name = Val ''Product 2'', ext_sku = Val ''SKU-002'',
      ext_description = Absent, ext_list_price = Val 20, ext_standard_price = Absent,
      ext_barcode = Absent, ext_category = Absent, ext_active = Val True\<rparr>"

definition record_no_sku :: ext_product where
  "record_no_sku = record_1\<lparr>ext_sku := Absent\<rparr>"

definition record_blank :: ext_product where
  "record_blank =
     \<lparr>ext_id = Val (IdInt 1), ext_name = Val [], ext_sku = Val ''SKU-001'',
      ext_description = Null, ext_list_price = Val 9, ext_standard_price = Absent,
      ext_barcode = Absent, ext_category = Absent, ext_active = Val True\<rparr>"

definition empty_env :: env where
  "empty_env =
     \<lparr>cur = \<lparr>products = [], logs = []\<rparr>, committed = \<lparr>products = [], logs = []\<rparr>,
      seq = 0, ticks = 0\<rparr>"

definition local_product :: product where
  "local_product =
     (new_product 7)\<lparr>name := Some ''Widget'', default_code := Some ''SKU-001'',
        description := Some ''Made here'', barcode := Some ''111'', list_price := 5\<rparr>"

definition local_env :: env where
  "local_env =
     \<lparr>cur = \<lparr>products = [local_product], logs = []\<rparr>,
      committed = \<lparr>products = [local_product], logs = []\<rparr>, seq = 7, ticks = 0\<rparr>"

definition catalog :: "item list \<Rightarrow> int \<Rightarrow> item list option outcome" where
  "catalog xs n = Response 200 (Some (Some xs)) []"

definition clock_later :: "nat \<Rightarrow> nat" where
  "clock_later k = (if k < 2 then 100 else 101)"

definition first_run :: "(exception + summary) \<times> env" where
  "first_run =
     sync_products clock_later 5 10 (catalog [Dict record_1, Dict record_2]) ''b1'' False None
       empty_env"

section \<open>Properties of the HTTP client\<close>

text \<open>
  Claim C8. For every attempt number \<open>n \<ge> 1\<close> the backoff delay of the client is
  \<open>min (2 ^ (n - 1)) 60\<close> seconds; in particular it is 1 for the first attempt, 8 for the
  fourth and 60 for the tenth.
\<close>

theorem calculate_backoff_formula:
  "1 \<le> n \<Longrightarrow> calculate_backoff n = of_int (min (2 ^ nat (n - 1)) 60)
     \<and> calculate_backoff 1 = 1 \<and> calculate_backoff 4 = 8 \<and> calculate_backoff 10 = 60"
  by (simp add: calculate_backoff_def Let_def of_int_min)

theorem calculate_backoff_formula_witness:
  "(1::int) \<le> 7 \<and> calculate_backoff 7 = 60"
  using calculate_backoff_formula [of 7] by simp

lemma loop_client_error:
  "attempt < max_retries \<Longrightarrow> session (attempt + 1) = Response c body t \<Longrightarrow>
   c \<in> {400, 401, 403, 404} \<Longrightarrow>
   make_request_loop max_retries session attempt exc slept =
     \<lparr>result = Inl (APIClientError (client_error_msg c t)), attempts = attempt + 1, sleeps = slept\<rparr>"
  by (subst make_request_loop.simps) (auto simp: should_retry_def)

lemma loop_retry:
  "attempt + 1 < max_retries \<Longrightarrow> session (attempt + 1) = Response s body t \<Longrightarrow>
   s \<in> {500, 502, 503, 429, 408} \<Longrightarrow>
   make_request_loop max_retries session attempt exc slept =
   make_request_loop max_retries session (attempt + 1) exc (slept @ [calculate_backoff (attempt + 1)])"
  by (subst make_request_loop.simps) (auto simp: should_retry_def)

text \<open>
  Claim C4. The retry classification. A status \<open>s\<close> among 500, 502, 503, 429, 408 is
  retried exactly while attempts remain: \<^verbatim>\<open>_should_retry\<close> answers \<open>attempt < max_retries\<close>,
  and a loop that receives \<open>s\<close> on an attempt that is not the last sleeps for the backoff
  of that attempt and goes on to the next one. A status \<open>c\<close> among 400, 401, 403, 404 is
  never retried: \<^verbatim>\<open>_should_retry\<close> answers no, and a loop that receives \<open>c\<close> raises
  \<^verbatim>\<open>APIClientError\<close> at once, having made no further request and no further sleep.
\<close>

theorem retry_classification:
  "(s \<in> {500, 502, 503, 429, 408} \<longrightarrow> should_retry max_retries s attempt = (attempt < max_retries))
   \<and> (c \<in> {400, 401, 403, 404} \<longrightarrow> \<not> should_retry max_retries c attempt)
   \<and> (s \<in> {500, 502, 503, 429, 408} \<and> attempt + 1 < max_retries
        \<and> session (attempt + 1) = Response s body t \<longrightarrow>
      make_request_loop max_retries session attempt exc slept =
      make_request_loop max_retries session (attempt + 1) exc
        (slept @ [calculate_backoff (attempt + 1)]))
   \<and> (c \<in> {400, 401, 403, 404} \<and> attempt < max_retries
        \<and> session (attempt + 1) = Response c body t \<longrightarrow>
      make_request_loop max_retries session attempt exc slept =
        \<lparr>result = Inl (APIClientError (client_error_msg c t)),
         attempts = attempt + 1, sleeps = slept\<rparr>)"
  using loop_retry[of attempt max_retries session s body t exc slept]
        loop_client_error[of attempt max_retries session c body t exc slept]
  by (auto simp: should_retry_def)

theorem retry_classification_witness:
  "(429::int) \<in> {500, 502, 503, 429, 408} \<and> (404::int) \<in> {400, 401, 403, 404}
   \<and> should_retry 5 429 1 \<and> \<not> should_retry 5 404 1
   \<and> make_request_loop 5 (\<lambda>n. Response 429 (None :: unit option) ''slow'') 0 None [] =
     make_request_loop 5 (\<lambda>n. Response 429 None ''slow'') 1 None [1]
   \<and> make_request_loop 5 (\<lambda>n. Response 404 (None :: unit option) ''gone'') 0 None [] =
       \<lparr>result = Inl (APIClientError ''Client error: 404 - gone''), attempts = 1, sleeps = []\<rparr>"
proof -
  have msg: "client_error_msg 404 ''gone'' = ''Client error: 404 - gone''"
    by code_simp
  have a: "should_retry 5 429 1 \<and> \<not> should_retry 5 404 1"
    using retry_classification [of 429 5 1 404 "\<lambda>n. Response 404 (None :: unit option) ''gone''" None "''gone''" None "[]"]
    by simp
  have b: "make_request_loop 5 (\<lambda>n. Response 429 (None :: unit option) ''slow'') 0 None [] =
     make_request_loop 5 (\<lambda>n. Response 429 None ''slow'') 1 None [1]"
    using retry_classification [of 429 5 0 404 "\<lambda>n. Response 429 (None :: unit option) ''slow''" None "''slow''" None "[]"]
    by (simp add: calculate_backoff_def)
  have c: "make_request_loop 5 (\<lambda>n. Response 404 (None :: unit option) ''gone'') 0 None [] =
       \<lparr>result = Inl (APIClientError ''Client error: 404 - gone''), attempts = 1, sleeps = []\<rparr>"
    using retry_classification [of 429 5 0 404 "\<lambda>n. Response 404 (None :: unit option) ''gone''" None "''gone''" None "[]"]
    by (simp add: msg)
  show ?thesis using a b c by simp
qed

text \<open>
  Claim C3. The claim: when every attempt is consumed by a retryable failure, the
  request fails with the "attempts exhausted" error wrapping the last cause, whether
  that was an HTTP status or a network exception. The code at \<open>max_retries = 3\<close>: when
  every attempt times out, the error is the exhausted one and wraps the timeout; when
  every attempt answers 500, \<^verbatim>\<open>_should_retry\<close> refuses the last attempt and the loop
  raises the "Client error" of a terminal status instead. The repository's test
  \<^verbatim>\<open>test_max_retries_exceeded\<close> expects "Request failed after 3 attempts" there.
\<close>

theorem make_request_all_500:
  "make_request 3 (\<lambda>n. Response 500 (None :: unit option) ''boom'') =
     \<lparr>result = Inl (APIClientError ''Client error: 500 - boom''), attempts = 3, sleeps = [1, 2]\<rparr>
   \<and> make_request 3 (\<lambda>n. Timeout ''timed out'' :: unit outcome) =
     \<lparr>result = Inl (APIClientError ''Request failed after 3 attempts: timed out''),
      attempts = 3, sleeps = [1, 2]\<rparr>"
  by code_simp

section \<open>Properties of the token bucket\<close>









text \<open>
  The limiter as the orchestrator uses it (window of one second): a call of
  \<^verbatim>\<open>wait_if_needed\<close> raises exactly when the configured rate is zero.
\<close>

lemma wait_if_needed_no_raise:
  "rate rl \<noteq> 0 \<Longrightarrow> per_seconds rl \<noteq> 0 \<Longrightarrow>
   fst (wait_if_needed now over rl) = Inr ()
   \<and> rate (snd (wait_if_needed now over rl)) = rate rl
   \<and> per_seconds (snd (wait_if_needed now over rl)) = per_seconds rl"
  by (simp add: wait_if_needed_def refill_tokens_def wait_time_def Let_def)

lemma limiter_wait_first_call:
  "fst (wait_if_needed now over (RateLimiter r 1 t0)) =
     (case limiter_wait r of Some x \<Rightarrow> Inl x | None \<Rightarrow> Inr ())"
proof (cases "r = 0")
  case True
  then show ?thesis
    by (simp add: limiter_wait_def wait_if_needed_def refill_tokens_def wait_time_def
        RateLimiter_def Let_def)
next
  case False
  then show ?thesis
    using wait_if_needed_no_raise[of "RateLimiter r 1 t0" now over]
    by (simp add: limiter_wait_def RateLimiter_def)
qed

subsection \<open>The adaptive limiter\<close>








section \<open>Properties of the orchestrator\<close>

subsection \<open>An aborted batch\<close>

lemma orm_write_committed:
  "orm_write e self v = Inr e' \<Longrightarrow> committed e' = committed e \<and> logs (cur e') = logs (cur e)"
  by (auto simp: orm_write_def Let_def split: option.splits)

lemma orm_create_committed:
  "orm_create e v = Inr (p, e') \<Longrightarrow> committed e' = committed e \<and> logs (cur e') = logs (cur e)"
  by (auto simp: orm_create_def Let_def split: option.splits)

lemma update_from_external_committed:
  "committed (snd (update_from_external clk e self x)) = committed e"
  by (auto simp: update_from_external_def Let_def dest: orm_write_committed split: sum.splits)

lemma create_from_external_committed:
  "committed (snd (create_from_external clk e x)) = committed e"
  by (auto simp: create_from_external_def Let_def dest: orm_create_committed split: sum.splits prod.splits)

lemma log_operation_committed:
  "committed (log_operation e operation product ext sku status msg details batch) = committed e"
  by (simp add: log_operation_def)

lemma mark_as_synced_committed:
  "committed (mark_as_synced clk e i) = committed e"
  by (simp add: mark_as_synced_def)

lemma sync_single_committed:
  "committed (snd (sync_single_product_priv clk e x batch dry_run)) = committed e"
proof -
  have u: "\<And>p r e1. update_from_external clk e p x = (r, e1) \<Longrightarrow> committed e1 = committed e"
    using update_from_external_committed by (metis snd_conv)
  have c: "\<And>r e1. create_from_external clk e x = (r, e1) \<Longrightarrow> committed e1 = committed e"
    using create_from_external_committed by (metis snd_conv)
  show ?thesis
    by (auto simp: sync_single_product_priv_def Let_def log_success_def
        log_operation_committed mark_as_synced_committed
        split: option.splits sum.splits prod.splits dest: u c)
qed

lemma sync_single_dry_run:
  "snd (sync_single_product_priv clk e x batch True) = e"
  by (auto simp: sync_single_product_priv_def Let_def split: option.splits)

lemma sync_loop_committed:
  "committed (snd (sync_loop clk rate_limit batch dry_run xs s e)) = committed e"
proof (induction clk rate_limit batch dry_run xs s e rule: sync_loop.induct)
  case (1 clk rate_limit batch dry_run s e)
  then show ?case by simp
next
  case (2 clk rate_limit batch dry_run rest s e)
  then show ?case by simp
next
  case (3 clk rate_limit batch dry_run ext_product rest s e)
  obtain r e' where step: "sync_single_product_priv clk e ext_product batch dry_run = (r, e')"
    by (cases "sync_single_product_priv clk e ext_product batch dry_run")
  have ce: "committed e' = committed e"
    using sync_single_committed[of clk e ext_product batch dry_run] step by simp
  show ?case
  proof (cases "limiter_wait rate_limit")
    case None
    then show ?thesis using 3 step ce
      by (cases r)
        (auto simp: record_error_def log_error_def log_operation_committed split: prod.splits)
  next
    case (Some a)
    then show ?thesis using step ce
      by (cases r)
        (auto simp: record_error_def log_error_def log_operation_committed split: prod.splits)
  qed
qed

lemma sync_loop_dry_run:
  "snd (sync_loop clk rate_limit batch True xs s e) = e"
proof (induction xs arbitrary: s)
  case Nil
  then show ?case by simp
next
  case (Cons a xs)
  show ?case
  proof (cases a)
    case (Dict x)
    obtain r e' where step: "sync_single_product_priv clk e x batch True = (r, e')"
      by (cases "sync_single_product_priv clk e x batch True")
    have "e' = e" using sync_single_dry_run[of clk e x batch] step by simp
    then show ?thesis using Cons Dict step
      by (cases r) (auto split: prod.splits option.splits)
  next
    case NotDict
    then show ?thesis by simp
  qed
qed

text \<open>
  Claim C2, as amended. When an exception leaves the \<^verbatim>\<open>try\<close> block of \<^verbatim>\<open>sync_products\<close>,
  the same exception is raised to the caller. In dry-run mode nothing was written. In
  a normal run the \<^verbatim>\<open>except\<close> clause rolls the transaction back: the tables return to
  their last committed state, so the product writes and log entries of the records
  processed before the failure are discarded.
\<close>

theorem abort_rolls_back:
  assumes "fst (sync_products_body clk max_retries rate_limit session batch dry_run limit e) = Inl x"
  shows "fst (sync_products clk max_retries rate_limit session batch dry_run limit e) = Inl x
     \<and> (if dry_run
         then snd (sync_products clk max_retries rate_limit session batch dry_run limit e) = e
         else cur (snd (sync_products clk max_retries rate_limit session batch dry_run limit e)) = committed e
            \<and> committed (snd (sync_products clk max_retries rate_limit session batch dry_run limit e)) = committed e)"
proof -
  obtain e1 where body: "sync_products_body clk max_retries rate_limit session batch dry_run limit e = (Inl x, e1)"
    using assms by (cases "sync_products_body clk max_retries rate_limit session batch dry_run limit e") auto
  have loopc: "\<And>xs s r e2. sync_loop clk rate_limit (Some batch) dry_run xs s e = (r, e2) \<Longrightarrow> committed e2 = committed e"
    using sync_loop_committed by (metis snd_conv)
  have loopd: "\<And>xs s r e2. sync_loop clk rate_limit (Some batch) True xs s e = (r, e2) \<Longrightarrow> e2 = e"
    using sync_loop_dry_run by (metis snd_conv)
  have c1: "committed e1 = committed e"
    using body
    by (auto simp: sync_products_body_def Let_def split: option.splits sum.splits prod.splits if_splits dest: loopc)
  have d1: "dry_run \<Longrightarrow> e1 = e"
    using body
    by (auto simp: sync_products_body_def Let_def split: option.splits sum.splits prod.splits if_splits dest: loopd)
  show ?thesis
  proof (cases dry_run)
    case True
    then show ?thesis using body d1 by (simp add: sync_products_def)
  next
    case False
    then show ?thesis using body c1 by (simp add: sync_products_def rollback_def)
  qed
qed

theorem abort_rolls_back_witness:
  "fst (sync_products clock_later 5 10 (catalog [Dict record_1, NotDict]) ''b1'' False None empty_env)
     = Inl (AttributeError ''object has no attribute get'')
   \<and> cur (snd (sync_products clock_later 5 10 (catalog [Dict record_1, NotDict]) ''b1'' False None
        empty_env)) = \<lparr>products = [], logs = []\<rparr>"
proof -
  have h: "fst (sync_products_body clock_later 5 10 (catalog [Dict record_1, NotDict]) ''b1'' False
      None empty_env) = Inl (AttributeError ''object has no attribute get'')"
    by code_simp
  from abort_rolls_back [OF h] show ?thesis
    by (simp add: empty_env_def)
qed

text \<open>
  Claim C2 as stated fails. The batch \<open>[record_1, "not an object"]\<close> in a normal run on
  an empty database: the first record is created and logged inside the \<^verbatim>\<open>try\<close> block,
  the second raises \<^verbatim>\<open>AttributeError\<close> outside the per-record handler, the exception
  reaches the caller, and after the \<^verbatim>\<open>except\<close> clause neither the product nor the log
  entry is left.
\<close>

theorem abort_discards_writes:
  "fst (sync_products clock_later 5 10 (catalog [Dict record_1, NotDict]) ''b1'' False None empty_env)
     = Inl (AttributeError ''object has no attribute get'')
   \<and> map external_id (products (cur (snd
        (sync_products_body clock_later 5 10 (catalog [Dict record_1, NotDict]) ''b1'' False None
           empty_env)))) = [Some ''1'']
   \<and> map log_op (logs (cur (snd
        (sync_products_body clock_later 5 10 (catalog [Dict record_1, NotDict]) ''b1'' False None
           empty_env)))) = [OpCreate]
   \<and> products (cur (snd
        (sync_products clock_later 5 10 (catalog [Dict record_1, NotDict]) ''b1'' False None
           empty_env))) = []
   \<and> logs (cur (snd
        (sync_products clock_later 5 10 (catalog [Dict record_1, NotDict]) ''b1'' False None
           empty_env))) = []"
  by code_simp

subsection \<open>A record that fails validation\<close>

lemma sync_loop_append:
  "sync_loop clk rate_limit batch dry_run (xs @ ys) s e =
     (case sync_loop clk rate_limit batch dry_run xs s e of
        (Inl x, e1) \<Rightarrow> (Inl x, e1)
      | (Inr s1, e1) \<Rightarrow> sync_loop clk rate_limit batch dry_run ys s1 e1)"
proof (induction clk rate_limit batch dry_run xs s e rule: sync_loop.induct)
  case (1 clk rate_limit batch dry_run s e)
  then show ?case by simp
next
  case (2 clk rate_limit batch dry_run rest s e)
  then show ?case by simp
next
  case (3 clk rate_limit batch dry_run ext_product rest s e)
  then show ?case
    by (auto simp: Let_def split: prod.splits sum.splits option.splits)
qed

lemma invalid_record_raises:
  "invalid_record x \<Longrightarrow>
   sync_single_product_priv clk e x batch dry_run =
     (Inl (ValueError (missing_fields_msg (str_ident (dict_get (ext_id x) (IdStr [])))
            (dict_get (ext_sku x) []))), e)"
  by (simp add: invalid_record_def sync_single_product_priv_def Let_def)

text \<open>
  Claim C7, as amended. In a batch whose limiter is usable, a record with an empty
  identifier or an empty SKU, reached after the records before it were processed,
  raises the count of errors by one and does not stop the loop: the records after it are
  processed by the same loop, from the state the failure leaves. In a normal run that
  state has exactly one more log entry, the error entry of the record, and the same
  products; in dry-run mode nothing is logged.
\<close>

theorem validation_failure_continues:
  assumes "invalid_record x" and "rate_limit \<noteq> 0"
    and "sync_loop clk rate_limit batch dry_run pre s e = (Inr s1, e1)"
    and "exc = ValueError (missing_fields_msg (str_ident (dict_get (ext_id x) (IdStr [])))
            (dict_get (ext_sku x) []))"
  shows "sync_loop clk rate_limit batch dry_run (pre @ Dict x # post) s e =
           sync_loop clk rate_limit batch dry_run post (s1\<lparr>errors := errors s1 + 1\<rparr>)
             (if dry_run then e1 else record_error e1 x exc batch)
       \<and> products (cur (record_error e1 x exc batch)) = products (cur e1)
       \<and> logs (cur (record_error e1 x exc batch)) = logs (cur e1) @
           [\<lparr>log_op = OpError, log_status = StatusError, product_id = None,
             log_external_id = Some (str_ident (dict_get (ext_id x) (IdStr []))),
             log_external_sku = dict_get (ext_sku x) [],
             message = ''Error processing product: '' @ exc_str exc,
             error_details = Some (exc_str exc), sync_batch_id = batch\<rparr>]"
proof -
  have "sync_loop clk rate_limit batch dry_run (Dict x # post) s1 e1 =
          sync_loop clk rate_limit batch dry_run post (s1\<lparr>errors := errors s1 + 1\<rparr>)
             (if dry_run then e1 else record_error e1 x exc batch)"
    using assms(1,2,4) invalid_record_raises[OF assms(1), of clk e1 batch dry_run]
    by (simp add: limiter_wait_def)
  then show ?thesis
    using assms(3) by (simp add: sync_loop_append record_error_def log_error_def log_operation_def)
qed

theorem validation_failure_continues_witness:
  "invalid_record record_no_sku
   \<and> fst (sync_loop clock_later 10 (Some ''b1'') False
        [Dict record_1, Dict record_no_sku, Dict record_2] (new_summary ''b1'') empty_env) =
     Inr \<lparr>total = 0, create = 2, created = 0, update = 0, updated = 0, skip = 0, skipped = 0,
          errors = 1, summary_batch_id = ''b1''\<rparr>
   \<and> map log_op (logs (cur (snd (sync_loop clock_later 10 (Some ''b1'') False
        [Dict record_1, Dict record_no_sku, Dict record_2] (new_summary ''b1'') empty_env)))) =
     [OpCreate, OpError, OpCreate]"
proof -
  define e1 where "e1 = snd (sync_loop clock_later 10 (Some ''b1'') False [Dict record_1]
      (new_summary ''b1'') empty_env)"
  define exc where "exc = ValueError (missing_fields_msg
      (str_ident (dict_get (ext_id record_no_sku) (IdStr []))) (dict_get (ext_sku record_no_sku) []))"
  have inv: "invalid_record record_no_sku" by code_simp
  have rl: "(10::int) \<noteq> 0" by simp
  have pre: "sync_loop clock_later 10 (Some ''b1'') False [Dict record_1] (new_summary ''b1'') empty_env =
      (Inr ((new_summary ''b1'')\<lparr>create := 1\<rparr>), e1)"
    unfolding e1_def by code_simp
  from validation_failure_continues [OF inv rl pre exc_def, of "[Dict record_2]"]
  have eq: "sync_loop clock_later 10 (Some ''b1'') False
        [Dict record_1, Dict record_no_sku, Dict record_2] (new_summary ''b1'') empty_env =
      sync_loop clock_later 10 (Some ''b1'') False [Dict record_2]
        ((new_summary ''b1'')\<lparr>create := 1, errors := errors ((new_summary ''b1'')\<lparr>create := 1\<rparr>) + 1\<rparr>)
        (record_error e1 record_no_sku exc (Some ''b1''))"
    by simp
  have rhs: "fst (sync_loop clock_later 10 (Some ''b1'') False [Dict record_2]
        ((new_summary ''b1'')\<lparr>create := 1, errors := errors ((new_summary ''b1'')\<lparr>create := 1\<rparr>) + 1\<rparr>)
        (record_error e1 record_no_sku exc (Some ''b1''))) =
      Inr \<lparr>total = 0, create = 2, created = 0, update = 0, updated = 0, skip = 0, skipped = 0,
          errors = 1, summary_batch_id = ''b1''\<rparr>
    \<and> map log_op (logs (cur (snd (sync_loop clock_later 10 (Some ''b1'') False [Dict record_2]
        ((new_summary ''b1'')\<lparr>create := 1, errors := errors ((new_summary ''b1'')\<lparr>create := 1\<rparr>) + 1\<rparr>)
        (record_error e1 record_no_sku exc (Some ''b1'')))))) = [OpCreate, OpError, OpCreate]"
    unfolding e1_def exc_def by code_simp
  show ?thesis using inv eq rhs by simp
qed

text \<open>
  Claim C7 as stated fails in dry-run mode. The batch \<open>[record without SKU, record_2]\<close>
  with \<^verbatim>\<open>dry_run=True\<close>: the invalid record is counted as one error and the next record
  is still processed, but the handler's \<^verbatim>\<open>if not dry_run\<close> guard skips \<^verbatim>\<open>log_error\<close>, so
  no error log entry exists.
\<close>

theorem dry_run_logs_no_error:
  "fst (sync_products clock_later 5 10 (catalog [Dict record_no_sku, Dict record_2]) ''b1'' True None
        empty_env) =
     Inr \<lparr>total = 2, create = 1, created = 0, update = 0, updated = 0, skip = 0, skipped = 0,
          errors = 1, summary_batch_id = ''b1''\<rparr>
   \<and> invalid_record record_no_sku
   \<and> logs (cur (snd (sync_products clock_later 5 10 (catalog [Dict record_no_sku, Dict record_2])
        ''b1'' True None empty_env))) = []"
  by code_simp

subsection \<open>Empty external fields\<close>

lemma clean_truthy: "clean v = Some s \<Longrightarrow> s \<noteq> []"
  by (auto simp: clean_def split: option.splits if_splits)

lemma clean_falsy: "\<not> truthy v \<Longrightarrow> clean v = None"
  by (auto simp: clean_def truthy_def split: option.splits)

lemma assign_opt_clean:
  "(assign_opt old (clean v) = old \<or> truthy (assign_opt old (clean v)))
   \<and> (\<not> truthy v \<longrightarrow> assign_opt old (clean v) = old)"
  by (auto simp: assign_opt_def clean_def truthy_def split: option.splits)

lemma prepared_strings_nonempty:
  "prepare_values_from_external now x = Inr v \<Longrightarrow>
   [] \<notin> set_option (v_name v) \<union> set_option (v_external_id v) \<union> set_option (v_external_sku v)
     \<union> set_option (v_default_code v) \<union> set_option (v_description v)
     \<union> set_option (v_barcode v)"
  by (auto simp: prepare_values_from_external_def dest: clean_truthy split: sum.splits)

lemma update_from_external_rows:
  assumes "update_from_external clk e self x = (r, e')"
    and "q' \<in> set (products (cur e'))"
  shows "q' \<in> set (products (cur e))
     \<or> (\<exists>v. prepare_values_from_external (clk (ticks e)) x = Inr v \<and> q' = apply_values v self)"
  using assms
  by (auto simp: update_from_external_def orm_write_def Let_def
      split: sum.splits option.splits if_splits)

text \<open>
  Claim C10. \<^verbatim>\<open>_prepare_values_from_external\<close> drops every \<^verbatim>\<open>None\<close> and empty-string
  value, so \<^verbatim>\<open>update_from_external\<close> changes the name, description, barcode and SKU
  fields (\<^verbatim>\<open>external_sku\<close> and \<^verbatim>\<open>default_code\<close>) of the row it is called on only to
  non-empty strings, and leaves each of them as it was when the external record's field
  is missing, \<^verbatim>\<open>null\<close> or empty. \<open>self\<close> is the row of the table with its identifier.
\<close>

theorem empty_external_fields_never_clear:
  assumes "update_from_external clk e self x = (r, e')"
    and "\<forall>q \<in> set (products (cur e)). pid q = pid self \<longrightarrow> q = self"
    and "q' \<in> set (products (cur e'))" and "pid q' = pid self"
  shows "(name q' = name self \<or> truthy (name q'))
       \<and> (description q' = description self \<or> truthy (description q'))
       \<and> (barcode q' = barcode self \<or> truthy (barcode q'))
       \<and> (external_sku q' = external_sku self \<or> truthy (external_sku q'))
       \<and> (default_code q' = default_code self \<or> truthy (default_code q'))
       \<and> (\<not> truthy (dict_get (ext_name x) []) \<longrightarrow> name q' = name self)
       \<and> (\<not> truthy (dict_get (ext_description x) []) \<longrightarrow> description q' = description self)
       \<and> (\<not> truthy (dict_get (ext_barcode x) []) \<longrightarrow> barcode q' = barcode self)
       \<and> (\<not> truthy (dict_get (ext_sku x) []) \<longrightarrow>
            external_sku q' = external_sku self \<and> default_code q' = default_code self)"
proof -
  from update_from_external_rows[OF assms(1,3)]
  consider (old) "q' = self"
    | (new) v where "prepare_values_from_external (clk (ticks e)) x = Inr v" "q' = apply_values v self"
    using assms(2,4) by auto
  then show ?thesis
  proof cases
    case old
    then show ?thesis by simp
  next
    case new
    from new(1) have v:
      "v_name v = clean (dict_get (ext_name x) [])"
      "v_description v = clean (dict_get (ext_description x) [])"
      "v_barcode v = clean (dict_get (ext_barcode x) [])"
      "v_external_sku v = clean (dict_get (ext_sku x) [])"
      "v_default_code v = clean (dict_get (ext_sku x) [])"
      by (auto simp: prepare_values_from_external_def split: sum.splits)
    show ?thesis
      using assign_opt_clean[of "name self" "dict_get (ext_name x) []"]
        assign_opt_clean[of "description self" "dict_get (ext_description x) []"]
        assign_opt_clean[of "barcode self" "dict_get (ext_barcode x) []"]
        assign_opt_clean[of "external_sku self" "dict_get (ext_sku x) []"]
        assign_opt_clean[of "default_code self" "dict_get (ext_sku x) []"]
      by (simp add: new(2) apply_values_def v)
  qed
qed

theorem empty_external_fields_never_clear_witness:
  "fst (update_from_external clock_later local_env local_product record_blank) = Inr True
   \<and> name (hd (products (cur (snd
        (update_from_external clock_later local_env local_product record_blank))))) = Some ''Widget''
   \<and> description (hd (products (cur (snd
        (update_from_external clock_later local_env local_product record_blank))))) = Some ''Made here''
   \<and> barcode (hd (products (cur (snd
        (update_from_external clock_later local_env local_product record_blank))))) = Some ''111''
   \<and> list_price (hd (products (cur (snd
        (update_from_external clock_later local_env local_product record_blank))))) = 9"
proof -
  define q' where "q' = hd (products (cur (snd
        (update_from_external clock_later local_env local_product record_blank))))"
  have run: "update_from_external clock_later local_env local_product record_blank =
      (fst (update_from_external clock_later local_env local_product record_blank),
       snd (update_from_external clock_later local_env local_product record_blank))"
    by simp
  have row: "\<forall>q \<in> set (products (cur local_env)). pid q = pid local_product \<longrightarrow> q = local_product"
    by (simp add: local_env_def)
  have mem: "q' \<in> set (products (cur (snd
        (update_from_external clock_later local_env local_product record_blank))))"
    unfolding q'_def by code_simp
  have same: "pid q' = pid local_product"
    unfolding q'_def by code_simp
  have blank: "\<not> truthy (dict_get (ext_name record_blank) [])"
      "\<not> truthy (dict_get (ext_description record_blank) [])"
      "\<not> truthy (dict_get (ext_barcode record_blank) [])"
    by code_simp+
  have vals: "fst (update_from_external clock_later local_env local_product record_blank) = Inr True"
      "list_price q' = 9"
    unfolding q'_def by code_simp+
  have old: "name local_product = Some ''Widget''" "description local_product = Some ''Made here''"
      "barcode local_product = Some ''111''"
    by (simp_all add: local_product_def)
  from empty_external_fields_never_clear [OF run row mem same]
  show ?thesis using blank vals old unfolding q'_def by simp
qed

subsection \<open>The SKU fallback\<close>

lemma find_None_iff': "(find P xs = None) = (\<forall>x \<in> set xs. \<not> P x)"
  by (induction xs) auto

lemma find_map_const:
  "p \<in> set xs \<Longrightarrow> pid c = pid p \<Longrightarrow>
   find (\<lambda>q. pid q = pid p) (map (\<lambda>q. if pid q = pid p then c else q) xs) = Some c"
  by (induction xs) auto

lemma sku_fallback_search:
  assumes "\<forall>q \<in> set (products (cur e)). external_id q \<noteq> Some ext"
    and "\<forall>q \<in> set (products (cur e)). external_sku q \<noteq> Some sku"
    and "find (\<lambda>q. default_code q = Some sku) (products (cur e)) = Some p"
  shows "search_by_external_id e ext = None \<and> search_by_sku e sku = Some p"
proof -
  have "find (\<lambda>q. external_id q = Some ext) (products (cur e)) = None"
    using assms(1) by (simp add: find_None_iff')
  moreover have "find (\<lambda>q. external_sku q = Some sku) (products (cur e)) = None"
    using assms(2) by (simp add: find_None_iff')
  ultimately show ?thesis
    using assms(3) by (simp add: search_by_external_id_def search_by_sku_def)
qed

lemma find_in_set: "find P xs = Some p \<Longrightarrow> p \<in> set xs \<and> P p"
  by (induction xs) (auto split: if_splits)

text \<open>
  Claim C9. When no product has the incoming external identifier and none has the
  incoming SKU as its \<^verbatim>\<open>external_sku\<close>, \<^verbatim>\<open>search_by_sku\<close> still returns the first product
  whose internal \<^verbatim>\<open>default_code\<close> equals that SKU. A normal run of
  \<^verbatim>\<open>_sync_single_product\<close> on a well-formed record then reports an update of that
  product, creates no product, and leaves the product linked: it carries the external
  identifier and SKU, is flagged as externally originated and is marked synced.
\<close>

theorem sku_fallback_links_local_product:
  assumes ext: "ext = str_ident (dict_get (ext_id x) (IdStr []))" "ext \<noteq> []"
    and sku: "ext_sku x = Val sku" "sku \<noteq> []"
    and prices: "ext_list_price x \<noteq> Null" "ext_standard_price x \<noteq> Null"
    and noid: "\<forall>q \<in> set (products (cur e)). external_id q \<noteq> Some ext"
    and nosku: "\<forall>q \<in> set (products (cur e)). external_sku q \<noteq> Some sku"
    and local: "find (\<lambda>q. default_code q = Some sku) (products (cur e)) = Some p"
  shows "search_by_external_id e ext = None \<and> search_by_sku e sku = Some p
     \<and> fst (sync_single_product_priv clk e x batch False) = Inr (OpUpdate, Some (pid p))
     \<and> length (products (cur (snd (sync_single_product_priv clk e x batch False))))
         = length (products (cur e))
     \<and> (case browse (snd (sync_single_product_priv clk e x batch False)) (pid p) of
          None \<Rightarrow> False
        | Some p' \<Rightarrow> external_id p' = Some ext \<and> external_sku p' = Some sku
            \<and> default_code p' = Some sku \<and> is_from_external p' \<and> sync_status p' = Synced)"
proof -
  have search: "search_by_external_id e ext = None \<and> search_by_sku e sku = Some p"
    using sku_fallback_search[OF noid nosku local] .
  have pin: "p \<in> set (products (cur e))" "default_code p = Some sku"
    using find_in_set[OF local] by auto
  obtain lp sp where fl: "py_float (dict_get (ext_list_price x) 0) = Inr lp"
      "py_float (dict_get (ext_standard_price x) 0) = Inr sp"
    using prices by (cases "ext_list_price x"; cases "ext_standard_price x")
      (auto simp: py_float_def dict_get_def)
  define v where "v = \<lparr>v_name = clean (dict_get (ext_name x) []),
                    v_external_id = clean (Some (str_ident (dict_get (ext_id x) (IdStr [])))),
                    v_external_sku = clean (dict_get (ext_sku x) []),
                    v_default_code = clean (dict_get (ext_sku x) []),
                    v_description = clean (dict_get (ext_description x) []),
                    v_list_price = Some lp,
                    v_standard_price = Some sp,
                    v_barcode = clean (dict_get (ext_barcode x) []),
                    v_active = dict_get (ext_active x) True,
                    v_is_from_external = Some True,
                    v_last_sync_date = Some (clk (ticks e)),
                    v_sync_status = None\<rparr>"
  have prep: "prepare_values_from_external (clk (ticks e)) x = Inr v"
    using fl by (simp add: prepare_values_from_external_def v_def)
  have vid: "v_external_id v = Some ext" "v_external_sku v = Some sku" "v_default_code v = Some sku"
      "v_is_from_external v = Some True"
    using ext sku by (simp_all add: v_def clean_def dict_get_def)
  have ch: "has_changes p v"
    using noid pin(1) vid(1) by (auto simp: has_changes_def changed_opt_def)
  define p' where "p' = apply_values v p"
  have p': "external_id p' = Some ext" "external_sku p' = Some sku" "default_code p' = Some sku"
      "is_from_external p'" "pid p' = pid p"
    using vid by (simp_all add: p'_def apply_values_def assign_opt_def assign_def)
  define e1 where "e1 = e\<lparr>ticks := Suc (ticks e)\<rparr>"
  have cc: "check_constraints (filter (\<lambda>q. pid q \<noteq> pid p) (products (cur e1))) (constrained_keys v) p' = None"
    using noid nosku p' ext(2) sku(2)
    by (auto simp: check_constraints_def truthy_def e1_def)
  define e2 where "e2 = e1\<lparr>cur := (cur e1)\<lparr>products :=
                    map (\<lambda>q. if pid q = pid p then p' else q) (products (cur e1))\<rparr>\<rparr>"
  have wr: "orm_write e1 p v = Inr e2"
    using cc by (simp add: orm_write_def Let_def p'_def e2_def)
  have upd: "update_from_external clk e p x = (Inr True, e2)"
    using prep ch wr by (simp add: update_from_external_def Let_def e1_def)
  define e3 where "e3 = mark_as_synced clk e2 (pid p)"
  have res: "sync_single_product_priv clk e x batch False =
      (Inr (OpUpdate, Some (pid p)),
       log_success e3 OpUpdate (Some (pid p)) (''Product updated: '' @ product_name e2 (pid p))
         (Some ext) (Some sku) batch)"
    using search upd ext sku
    by (simp add: sync_single_product_priv_def Let_def dict_get_def truthy_def str_or_none_def e3_def)
  have rows3: "products (cur e3) =
      map (\<lambda>q. if pid q = pid p
                then q\<lparr>sync_status := Synced, last_sync_date := Some (clk (ticks e2)),
                       sync_error_message := None\<rparr>
                else q)
        (map (\<lambda>q. if pid q = pid p then p' else q) (products (cur e)))"
    by (simp add: e3_def mark_as_synced_def e2_def e1_def)
  define p3 where "p3 = p'\<lparr>sync_status := Synced, last_sync_date := Some (clk (ticks e2)),
                       sync_error_message := None\<rparr>"
  have rows3': "products (cur e3) = map (\<lambda>q. if pid q = pid p then p3 else q) (products (cur e))"
    unfolding rows3 p3_def using p'(5) by (simp add: comp_def cong: if_cong) 
  have "find (\<lambda>q. pid q = pid p) (products (cur e3)) = Some p3"
    unfolding rows3' using find_map_const[OF pin(1), of p3] p'(5) by (simp add: p3_def)
  then have br: "browse (log_success e3 OpUpdate (Some (pid p)) (''Product updated: '' @ product_name e2 (pid p))
         (Some ext) (Some sku) batch) (pid p) = Some p3"
    by (simp add: browse_def log_success_def log_operation_def)
  have len: "length (products (cur (log_success e3 OpUpdate (Some (pid p)) (''Product updated: '' @ product_name e2 (pid p))
         (Some ext) (Some sku) batch))) = length (products (cur e))"
    by (simp add: log_success_def log_operation_def rows3')
  show ?thesis
    using search res br len p' by (simp add: p3_def)
qed

theorem sku_fallback_links_local_product_witness:
  "search_by_sku local_env ''SKU-001'' = Some local_product
   \<and> external_id local_product = None \<and> external_sku local_product = None
   \<and> fst (sync_single_product_priv clock_later local_env record_1 (Some ''b1'') False) =
       Inr (OpUpdate, Some 7)
   \<and> length (products (cur (snd (sync_single_product_priv clock_later local_env record_1
        (Some ''b1'') False)))) = 1"
proof -
  have ext: "''1'' = str_ident (dict_get (ext_id record_1) (IdStr []))" "''1'' \<noteq> []"
    by code_simp+
  have sku: "ext_sku record_1 = Val ''SKU-001''" "''SKU-001'' \<noteq> []"
    by (simp_all add: record_1_def)
  have prices: "ext_list_price record_1 \<noteq> Null" "ext_standard_price record_1 \<noteq> Null"
    by (simp_all add: record_1_def)
  have noid: "\<forall>q \<in> set (products (cur local_env)). external_id q \<noteq> Some ''1''"
    by (simp add: local_env_def local_product_def new_product_def)
  have nosku: "\<forall>q \<in> set (products (cur local_env)). external_sku q \<noteq> Some ''SKU-001''"
    by (simp add: local_env_def local_product_def new_product_def)
  have loc: "find (\<lambda>q. default_code q = Some ''SKU-001'') (products (cur local_env)) = Some local_product"
    by (simp add: local_env_def local_product_def new_product_def)
  have p: "pid local_product = 7" "external_id local_product = None" "external_sku local_product = None"
    "length (products (cur local_env)) = 1"
    by (simp_all add: local_env_def local_product_def new_product_def)
  from sku_fallback_links_local_product [OF ext sku prices noid nosku loc, of clock_later "Some ''b1''"]
  show ?thesis using p by simp
qed

subsection \<open>Re-synchronising unchanged data\<close>

text \<open>
  The dictionary that \<^verbatim>\<open>update_from_external\<close> compares with the row always holds
  \<^verbatim>\<open>last_sync_date\<close>, set to the current time: a row whose stored date is not the
  current second counts as changed, whatever the external data.
\<close>

lemma stale_timestamp_is_a_change:
  "prepare_values_from_external now x = Inr v \<Longrightarrow> last_sync_date p \<noteq> Some now \<Longrightarrow>
   has_changes p v"
  by (auto simp: prepare_values_from_external_def has_changes_def changed_opt_def
      split: sum.splits)

text \<open>
  Claim C1. The claim: a second run against an unchanged catalog classifies every record
  as a skip, and resubmitting identical data for a synced record makes
  \<^verbatim>\<open>update_from_external\<close> return \<^verbatim>\<open>False\<close> without a write. The code, on the catalog
  \<open>[record_1, record_2]\<close> and an empty database: the first run, at second 100, creates
  two products. The second run, one second later, reports two updates and no skip;
  \<^verbatim>\<open>update_from_external\<close> on the first product with the unchanged \<open>record_1\<close> returns
  \<^verbatim>\<open>True\<close> and rewrites the row with the new date. Only a second run within the same
  clock second (the last conjunct) reports two skips. The repository's tests
  \<^verbatim>\<open>test_product_update_no_changes\<close> and \<^verbatim>\<open>test_sync_idempotency\<close> expect the skip.
\<close>

theorem resync_one_second_later:
  "fst first_run =
     Inr \<lparr>total = 2, create = 2, created = 0, update = 0, updated = 0, skip = 0, skipped = 0,
          errors = 0, summary_batch_id = ''b1''\<rparr>
   \<and> map last_sync_date (products (cur (snd first_run))) = [Some 100, Some 100]
   \<and> fst (sync_products clock_later 5 10 (catalog [Dict record_1, Dict record_2]) ''b2'' False None
        (snd first_run)) =
     Inr \<lparr>total = 2, create = 0, created = 0, update = 2, updated = 0, skip = 0, skipped = 0,
          errors = 0, summary_batch_id = ''b2''\<rparr>
   \<and> fst (update_from_external clock_later (snd first_run) (hd (products (cur (snd first_run))))
        record_1) = Inr True
   \<and> map last_sync_date (products (cur (snd
        (update_from_external clock_later (snd first_run) (hd (products (cur (snd first_run))))
           record_1)))) = [Some 101, Some 100]
   \<and> fst (sync_products (\<lambda>k. 100) 5 10 (catalog [Dict record_1, Dict record_2]) ''b2'' False None
        (snd first_run)) =
     Inr \<lparr>total = 2, create = 0, created = 0, update = 0, updated = 0, skip = 2, skipped = 0,
          errors = 0, summary_batch_id = ''b2''\<rparr>"
  by code_simp

end
